theory Spec2Isabelle
  imports Complex_Main
begin


section \<open>Data model of server.js\<close>

text \<open>
  Dates are milliseconds since the epoch, as \<^verbatim>\<open>Date.now()\<close> returns them.
  Every \<^verbatim>\<open>new Date()\<close> evaluated while one handler runs reads the same
  instant, the parameter \<open>now\<close> of the handler. Socket ids and track ids are strings.
  JavaScript numbers in the request are modelled as reals: the handlers only compare
  them with integer constants and store them. A field of a request that is present
  holds a value of its type (a string for trackId, a number for the others). The
  database answers every query, so the \<^verbatim>\<open>catch\<close> branches of the handlers (status 500)
  are not part of the model.
\<close>

type_synonym date = int

type_synonym socket_id = string

text \<open>locationSchema (lines 55-63).\<close>

record location =
  trackId :: string
  lat :: real
  lng :: real
  speed :: real
  accuracy :: real
  timestamp :: date
  isActive :: bool

text \<open>pathHistorySchema (lines 65-73): a point \<open>{lat, lng, timestamp}\<close> and the document.\<close>

record point =
  p_lat :: real
  p_lng :: real
  p_timestamp :: date

record pathHistory =
  ph_trackId :: string
  points :: "point list"
  lastUpdated :: date

text \<open>
  The destructured request body or socket message
  \<^verbatim>\<open>const { trackId, lat, lng, speed, accuracy } = ...\<close>; \<open>None\<close> is \<^verbatim>\<open>undefined\<close>.
\<close>

record update_data =
  d_trackId :: "string option"
  d_lat :: "real option"
  d_lng :: "real option"
  d_speed :: "real option"
  d_accuracy :: "real option"

text \<open>\<^verbatim>\<open>x || 0\<close> on an optional number: \<^verbatim>\<open>undefined\<close> and \<open>0\<close> are falsy.\<close>

definition or_zero :: "real option \<Rightarrow> real" where
  "or_zero x = (case x of None \<Rightarrow> 0 | Some v \<Rightarrow> if v = 0 then 0 else v)"

subsection \<open>Socket.IO: packets, rooms, emitters\<close>

text \<open>
  What a client receives is a packet: the event name and its payload. The model also
  records how the packet was addressed (to every client, to a room, to one socket), which
  the client does not see.
\<close>

datatype channel = Broadcast | Room string | Direct

datatype payload =
    UpdateData string real real real real date
  | Ack string bool
  | ErrorMessage string
  | Pong date

type_synonym packet = "channel \<times> string \<times> payload"

text \<open>
  The server: the two Mongoose collections as lists of documents in insertion order, the
  connected sockets, the members of each room, and what each socket has received so far.
\<close>

record server =
  Location :: "location list"
  PathHistory :: "pathHistory list"
  sockets :: "socket_id set"
  rooms :: "string \<Rightarrow> socket_id set"
  inbox :: "socket_id \<Rightarrow> packet list"

text \<open>\<^verbatim>\<open>io.emit(ev, data)\<close>: to every connected client.\<close>

definition io_emit :: "string \<Rightarrow> payload \<Rightarrow> server \<Rightarrow> server" where
  "io_emit ev data s =
     s\<lparr>inbox := (\<lambda>c. if c \<in> sockets s then inbox s c @ [(Broadcast, ev, data)] else inbox s c)\<rparr>"

text \<open>\<^verbatim>\<open>io.to(room).emit(ev, data)\<close>: to every connected member of the room.\<close>

definition io_to_emit :: "string \<Rightarrow> string \<Rightarrow> payload \<Rightarrow> server \<Rightarrow> server" where
  "io_to_emit room ev data s =
     s\<lparr>inbox := (\<lambda>c. if c \<in> sockets s \<and> c \<in> rooms s room
                       then inbox s c @ [(Room room, ev, data)] else inbox s c)\<rparr>"

text \<open>\<^verbatim>\<open>socket.emit(ev, data)\<close>: to this socket only.\<close>

definition socket_emit :: "socket_id \<Rightarrow> string \<Rightarrow> payload \<Rightarrow> server \<Rightarrow> server" where
  "socket_emit socket ev data s =
     s\<lparr>inbox := (inbox s)(socket := inbox s socket @ [(Direct, ev, data)])\<rparr>"

text \<open>\<^verbatim>\<open>socket.join(room)\<close> and \<^verbatim>\<open>socket.leave(room)\<close>: a room is a set of socket ids.\<close>

definition socket_join :: "socket_id \<Rightarrow> string \<Rightarrow> server \<Rightarrow> server" where
  "socket_join socket room s = s\<lparr>rooms := (rooms s)(room := insert socket (rooms s room))\<rparr>"

definition socket_leave :: "socket_id \<Rightarrow> string \<Rightarrow> server \<Rightarrow> server" where
  "socket_leave socket room s = s\<lparr>rooms := (rooms s)(room := rooms s room - {socket})\<rparr>"

subsection \<open>Mongoose: the queries the handlers use\<close>

fun findOne :: "('d \<Rightarrow> bool) \<Rightarrow> 'd list \<Rightarrow> 'd option" where
  "findOne q [] = None"
| "findOne q (d # ds) = (if q d then Some d else findOne q ds)"

text \<open>
  \<^verbatim>\<open>findOneAndUpdate(filter, update, {new: true})\<close>: the first document that matches
  is updated and returned; \<open>None\<close> (\<^verbatim>\<open>null\<close>) when no document matches.
\<close>

fun findOneAndUpdate :: "('d \<Rightarrow> bool) \<Rightarrow> ('d \<Rightarrow> 'd) \<Rightarrow> 'd list \<Rightarrow> 'd option \<times> 'd list" where
  "findOneAndUpdate q u [] = (None, [])"
| "findOneAndUpdate q u (d # ds) =
     (if q d then (Some (u d), u d # ds)
      else (case findOneAndUpdate q u ds of (r, ds') \<Rightarrow> (r, d # ds')))"

text \<open>With \<^verbatim>\<open>{upsert: true}\<close>: when no document matches, \<open>ins\<close> is inserted.\<close>

definition findOneAndUpdate_upsert ::
  "('d \<Rightarrow> bool) \<Rightarrow> ('d \<Rightarrow> 'd) \<Rightarrow> 'd \<Rightarrow> 'd list \<Rightarrow> 'd \<times> 'd list" where
  "findOneAndUpdate_upsert q u ins ds =
     (case findOneAndUpdate q u ds of
        (Some d, ds') \<Rightarrow> (d, ds')
      | (None, ds') \<Rightarrow> (ins, ds @ [ins]))"

text \<open>\<^verbatim>\<open>deleteMany(filter)\<close>: \<open>deletedCount\<close> and the collection that is left.\<close>

definition deleteMany :: "('d \<Rightarrow> bool) \<Rightarrow> 'd list \<Rightarrow> nat \<times> 'd list" where
  "deleteMany q ds = (length (filter q ds), filter (\<lambda>d. \<not> q d) ds)"

text \<open>\<^verbatim>\<open>$slice: -n\<close> of a \<^verbatim>\<open>$push\<close>: the array keeps its last \<open>n\<close> elements.\<close>

definition slice_last :: "nat \<Rightarrow> 'a list \<Rightarrow> 'a list" where
  "slice_last n xs = drop (length xs - n) xs"

text \<open>
  The call of lines 149-160 and of lines 377-388, the same in both handlers:
  \<^verbatim>\<open>Location.findOneAndUpdate({trackId}, {lat, lng, speed: speed || 0,
  accuracy: accuracy || 0, timestamp: new Date(), isActive: true}, {upsert: true, new: true})\<close>.
\<close>

definition Location_upsert ::
  "date \<Rightarrow> string \<Rightarrow> real \<Rightarrow> real \<Rightarrow> real option \<Rightarrow> real option \<Rightarrow> location list
     \<Rightarrow> location \<times> location list" where
  "Location_upsert now tid la lg sp ac locs =
     findOneAndUpdate_upsert (\<lambda>d. trackId d = tid)
       (\<lambda>d. d\<lparr>lat := la, lng := lg, speed := or_zero sp, accuracy := or_zero ac,
               timestamp := now, isActive := True\<rparr>)
       \<lparr>trackId = tid, lat = la, lng = lg, speed = or_zero sp, accuracy = or_zero ac,
         timestamp = now, isActive = True\<rparr>
       locs"

text \<open>
  The call of lines 163-175 and of lines 391-403:
  \<^verbatim>\<open>PathHistory.findOneAndUpdate({trackId}, {$push: {points: {$each: [{lat, lng,
  timestamp: new Date()}], $slice: -1000}}, lastUpdated: new Date()}, {upsert: true})\<close>.
  The REST handler also passes \<^verbatim>\<open>new: true\<close>, which only changes the returned document,
  and neither handler reads it.
\<close>

definition PathHistory_push ::
  "date \<Rightarrow> string \<Rightarrow> real \<Rightarrow> real \<Rightarrow> pathHistory list \<Rightarrow> pathHistory list" where
  "PathHistory_push now tid la lg phs =
     snd (findOneAndUpdate_upsert (\<lambda>d. ph_trackId d = tid)
       (\<lambda>d. d\<lparr>points := slice_last 1000 (points d @ [\<lparr>p_lat = la, p_lng = lg, p_timestamp = now\<rparr>]),
               lastUpdated := now\<rparr>)
       \<lparr>ph_trackId = tid,
         points = slice_last 1000 [\<lparr>p_lat = la, p_lng = lg, p_timestamp = now\<rparr>],
         lastUpdated = now\<rparr>
       phs)"

text \<open>
  \<^verbatim>\<open>pathHistorySchema.pre('save')\<close> (lines 75-80). Mongoose runs this hook when a
  document is saved with \<^verbatim>\<open>doc.save()\<close>; \<^verbatim>\<open>findOneAndUpdate\<close> is a query and does
  not run it, and server.js never calls \<^verbatim>\<open>save()\<close>, so no handler below calls it.
\<close>

definition pre_save :: "date \<Rightarrow> pathHistory \<Rightarrow> pathHistory" where
  "pre_save now doc =
     doc\<lparr>points := filter (\<lambda>point. p_timestamp point > now - 24 * 60 * 60 * 1000) (points doc)\<rparr>"

section \<open>REST routes\<close>

datatype body =
    ErrorBody string
  | UpdateBody location
  | LocationBody location bool
  | PointsBody "point list"
  | MessageBody string
  | CleanupBody nat nat

type_synonym response = "nat \<times> body"

text \<open>\<^verbatim>\<open>POST /api/location/update\<close> (lines 135-203).\<close>

definition post_location_update :: "date \<Rightarrow> update_data \<Rightarrow> server \<Rightarrow> response \<times> server" where
  "post_location_update now req s =
     (case d_trackId req of
        None \<Rightarrow> ((400, ErrorBody ''Missing required fields: trackId, lat, lng''), s)
      | Some tid \<Rightarrow>
     (case d_lat req of
        None \<Rightarrow> ((400, ErrorBody ''Missing required fields: trackId, lat, lng''), s)
      | Some la \<Rightarrow>
     (case d_lng req of
        None \<Rightarrow> ((400, ErrorBody ''Missing required fields: trackId, lat, lng''), s)
      | Some lg \<Rightarrow>
        if tid = [] then ((400, ErrorBody ''Missing required fields: trackId, lat, lng''), s)
        else if la < - 90 \<or> la > 90 \<or> lg < - 180 \<or> lg > 180
        then ((400, ErrorBody ''Invalid coordinates''), s)
        else
          (case Location_upsert now tid la lg (d_speed req) (d_accuracy req) (Location s) of
             (loc, locs) \<Rightarrow>
               let s1 = s\<lparr>Location := locs\<rparr>;
                   s2 = s1\<lparr>PathHistory := PathHistory_push now tid la lg (PathHistory s1)\<rparr>;
                   s3 = io_emit ''location:updated''
                          (UpdateData tid la lg (or_zero (d_speed req)) (or_zero (d_accuracy req)) now) s2;
                   s4 = io_emit (''location:'' @ tid)
                          (UpdateData tid la lg (or_zero (d_speed req)) (or_zero (d_accuracy req)) now) s3
               in ((200, UpdateBody loc), s4)))))"

text \<open>\<^verbatim>\<open>GET /api/location/:trackId\<close> (lines 206-232).\<close>

definition get_location :: "date \<Rightarrow> string \<Rightarrow> server \<Rightarrow> response" where
  "get_location now tid s =
     (if tid = [] then (400, ErrorBody ''Track ID is required'')
      else (case findOne (\<lambda>d. trackId d = tid) (Location s) of
              None \<Rightarrow> (404, ErrorBody ''Track ID not found'')
            | Some loc \<Rightarrow> (200, LocationBody loc (timestamp loc > now - 30000))))"

text \<open>
  \<^verbatim>\<open>GET /api/path/:trackId\<close> (lines 235-260). The query parameter \<open>hours\<close> is absent
  (the default 2), or \<^verbatim>\<open>parseInt\<close> reads an integer from it, or \<^verbatim>\<open>NaN\<close>.
  \<^verbatim>\<open>new Date(v)\<close> is an invalid date when \<open>v\<close> is \<^verbatim>\<open>NaN\<close> or beyond 8.64e15
  milliseconds from the epoch, and every comparison with an invalid date is false.
\<close>

datatype hours_query = NoHours | Hours int | HoursNaN

definition get_path :: "date \<Rightarrow> string \<Rightarrow> hours_query \<Rightarrow> server \<Rightarrow> response" where
  "get_path now tid hours s =
     (if tid = [] then (400, ErrorBody ''Track ID is required'')
      else (case findOne (\<lambda>d. ph_trackId d = tid) (PathHistory s) of
              None \<Rightarrow> (200, PointsBody [])
            | Some doc \<Rightarrow>
                (case (case hours of NoHours \<Rightarrow> Some 2 | Hours h \<Rightarrow> Some h | HoursNaN \<Rightarrow> None) of
                   None \<Rightarrow> (200, PointsBody [])
                 | Some hoursNum \<Rightarrow>
                     let timeAgo = now - hoursNum * 60 * 60 * 1000 in
                     if \<bar>timeAgo\<bar> > 8640000000000000 then (200, PointsBody [])
                     else (200, PointsBody (filter (\<lambda>point. p_timestamp point > timeAgo) (points doc))))))"

text \<open>\<^verbatim>\<open>POST /api/location/deactivate/:trackId\<close> (lines 263-287).\<close>

definition post_location_deactivate :: "string \<Rightarrow> server \<Rightarrow> response \<times> server" where
  "post_location_deactivate tid s =
     (if tid = [] then ((400, ErrorBody ''Track ID is required''), s)
      else (case findOneAndUpdate (\<lambda>d. trackId d = tid) (\<lambda>d. d\<lparr>isActive := False\<rparr>) (Location s) of
              (None, locs) \<Rightarrow> ((404, ErrorBody ''Track ID not found''), s)
            | (Some result, locs) \<Rightarrow>
                ((200, MessageBody ''Location sharing deactivated''), s\<lparr>Location := locs\<rparr>)))"

text \<open>\<^verbatim>\<open>POST /api/cleanup\<close> (lines 290-315).\<close>

definition post_cleanup :: "date \<Rightarrow> server \<Rightarrow> response \<times> server" where
  "post_cleanup now s =
     (let twentyFourHoursAgo = now - 24 * 60 * 60 * 1000 in
      case deleteMany (\<lambda>d. timestamp d < twentyFourHoursAgo) (Location s) of
        (deletedLocations, locs) \<Rightarrow>
      case deleteMany (\<lambda>d. lastUpdated d < twentyFourHoursAgo) (PathHistory s) of
        (deletedPaths, phs) \<Rightarrow>
          ((200, CleanupBody deletedLocations deletedPaths),
           s\<lparr>Location := locs, PathHistory := phs\<rparr>))"

section \<open>Socket.IO handlers\<close>

text \<open>\<^verbatim>\<open>io.on('connection')\<close> and \<^verbatim>\<open>'disconnect'\<close>: a closed socket leaves every room.\<close>

definition connection :: "socket_id \<Rightarrow> server \<Rightarrow> server" where
  "connection socket s = s\<lparr>sockets := insert socket (sockets s)\<rparr>"

definition disconnect :: "socket_id \<Rightarrow> server \<Rightarrow> server" where
  "disconnect socket s =
     s\<lparr>sockets := sockets s - {socket}, rooms := (\<lambda>room. rooms s room - {socket})\<rparr>"

text \<open>\<^verbatim>\<open>socket.on('track:subscribe')\<close> (lines 343-349) and \<^verbatim>\<open>'track:unsubscribe'\<close> (lines 352-358).\<close>

definition track_subscribe :: "socket_id \<Rightarrow> string \<Rightarrow> server \<Rightarrow> server" where
  "track_subscribe socket tid s =
     socket_emit socket ''track:subscribed'' (Ack tid True)
       (socket_join socket (''track:'' @ tid) s)"

definition track_unsubscribe :: "socket_id \<Rightarrow> string \<Rightarrow> server \<Rightarrow> server" where
  "track_unsubscribe socket tid s =
     socket_emit socket ''track:unsubscribed'' (Ack tid True)
       (socket_leave socket (''track:'' @ tid) s)"

text \<open>\<^verbatim>\<open>socket.on('ping')\<close> (lines 432-434).\<close>

definition ping :: "socket_id \<Rightarrow> date \<Rightarrow> server \<Rightarrow> server" where
  "ping socket now s = socket_emit socket ''pong'' (Pong now) s"

text \<open>\<^verbatim>\<open>socket.on('location:update')\<close> (lines 361-429).\<close>

definition socket_location_update :: "socket_id \<Rightarrow> date \<Rightarrow> update_data \<Rightarrow> server \<Rightarrow> server" where
  "socket_location_update socket now req s =
     (case d_trackId req of
        None \<Rightarrow> socket_emit socket ''error'' (ErrorMessage ''Missing required fields'') s
      | Some tid \<Rightarrow>
     (case d_lat req of
        None \<Rightarrow> socket_emit socket ''error'' (ErrorMessage ''Missing required fields'') s
      | Some la \<Rightarrow>
     (case d_lng req of
        None \<Rightarrow> socket_emit socket ''error'' (ErrorMessage ''Missing required fields'') s
      | Some lg \<Rightarrow>
        if tid = [] then socket_emit socket ''error'' (ErrorMessage ''Missing required fields'') s
        else if la < - 90 \<or> la > 90 \<or> lg < - 180 \<or> lg > 180
        then socket_emit socket ''error'' (ErrorMessage ''Invalid coordinates'') s
        else
          (case Location_upsert now tid la lg (d_speed req) (d_accuracy req) (Location s) of
             (loc, locs) \<Rightarrow>
               let s1 = s\<lparr>Location := locs\<rparr>;
                   s2 = s1\<lparr>PathHistory := PathHistory_push now tid la lg (PathHistory s1)\<rparr>;
                   updateData =
                     UpdateData tid la lg (or_zero (d_speed req)) (or_zero (d_accuracy req)) now;
                   s3 = io_emit ''location:updated'' updateData s2;
                   s4 = io_to_emit (''track:'' @ tid) ''location:updated'' updateData s3;
                   s5 = io_emit (''location:'' @ tid) updateData s4
               in s5))))"

section \<open>Automatic cleanup job\<close>

text \<open>The hourly cleanup job (lines 448-466): the same two deletions; the counts are only logged.\<close>

definition cleanup_job :: "date \<Rightarrow> server \<Rightarrow> server" where
  "cleanup_job now s =
     (let twentyFourHoursAgo = now - 24 * 60 * 60 * 1000 in
      case deleteMany (\<lambda>d. timestamp d < twentyFourHoursAgo) (Location s) of
        (deletedLocations, locs) \<Rightarrow>
      case deleteMany (\<lambda>d. lastUpdated d < twentyFourHoursAgo) (PathHistory s) of
        (deletedPaths, phs) \<Rightarrow> s\<lparr>Location := locs, PathHistory := phs\<rparr>)"

section \<open>Vocabulary of the statements\<close>

text \<open>The server when the process starts: empty collections, no client.\<close>

definition initial_server :: server where
  "initial_server =
     \<lparr>Location = [], PathHistory = [], sockets = {}, rooms = (\<lambda>room. {}), inbox = (\<lambda>c. [])\<rparr>"

text \<open>
  What one run of a handler sends to the client \<open>c\<close>: the packets \<open>c\<close> holds after the
  run beyond those it held before.
\<close>

definition delivered :: "server \<Rightarrow> server \<Rightarrow> socket_id \<Rightarrow> packet list" where
  "delivered s s' c = drop (length (inbox s c)) (inbox s' c)"

text \<open>The stored trail of a track: the points of the document the routes find.\<close>

definition trail_points :: "string \<Rightarrow> server \<Rightarrow> point list" where
  "trail_points tid s =
     (case findOne (\<lambda>d. ph_trackId d = tid) (PathHistory s) of
        None \<Rightarrow> [] | Some doc \<Rightarrow> points doc)"

subsection \<open>Sequences of accepted updates of one track\<close>

text \<open>
  A report is one accepted update of a track: the entry point it comes through, the
  instant the handler runs, and the submitted lat, lng, speed and accuracy.
\<close>

datatype entry = ViaRest | ViaSocket socket_id

type_synonym report = "entry \<times> date \<times> real \<times> real \<times> real option \<times> real option"

fun submit :: "entry \<Rightarrow> date \<Rightarrow> update_data \<Rightarrow> server \<Rightarrow> server" where
  "submit ViaRest now req s = snd (post_location_update now req s)"
| "submit (ViaSocket socket) now req s = socket_location_update socket now req s"

fun submit_report :: "string \<Rightarrow> report \<Rightarrow> server \<Rightarrow> server" where
  "submit_report tid (e, now, la, lg, sp, ac) s =
     submit e now \<lparr>d_trackId = Some tid, d_lat = Some la, d_lng = Some lg,
                   d_speed = sp, d_accuracy = ac\<rparr> s"

fun submit_reports :: "string \<Rightarrow> report list \<Rightarrow> server \<Rightarrow> server" where
  "submit_reports tid [] s = s"
| "submit_reports tid (r # rs) s = submit_reports tid rs (submit_report tid r s)"

fun in_range :: "report \<Rightarrow> bool" where
  "in_range (e, now, la, lg, sp, ac) = (- 90 \<le> la \<and> la \<le> 90 \<and> - 180 \<le> lg \<and> lg \<le> 180)"

fun report_point :: "report \<Rightarrow> point" where
  "report_point (e, now, la, lg, sp, ac) = \<lparr>p_lat = la, p_lng = lg, p_timestamp = now\<rparr>"

subsection \<open>Example servers\<close>

text \<open>
  A server with two clients, \<open>C\<close> subscribed to the topic of track \<open>X\<close> and \<open>S\<close> not
  subscribed, an update of track \<open>X\<close> and an update of track \<open>Y\<close>.
\<close>

definition subscribed_server :: server where
  "subscribed_server = track_subscribe ''C'' ''X'' (connection ''S'' (connection ''C'' initial_server))"

definition update_X :: update_data where
  "update_X = \<lparr>d_trackId = Some ''X'', d_lat = Some 10, d_lng = Some 20,
                d_speed = None, d_accuracy = None\<rparr>"

definition update_Y :: update_data where
  "update_Y = \<lparr>d_trackId = Some ''Y'', d_lat = Some 30, d_lng = Some 40,
                d_speed = Some 5, d_accuracy = None\<rparr>"

text \<open>
  Three updates of track \<open>X\<close>, 13 hours apart, with the cleanup job run before the second
  and before the third: the trail is never untouched for 24 hours, so the job keeps it.
\<close>

definition day_later_server :: server where
  "day_later_server =
     snd (post_location_update 93600000 update_X
       (cleanup_job 93600000
         (socket_location_update ''S'' 46800000 update_X
           (cleanup_job 46800000
             (snd (post_location_update 0 update_X initial_server))))))"

section \<open>Basic facts\<close>

subsection \<open>Emitters\<close>

lemma io_emit_frame [simp]:
  "Location (io_emit ev data s) = Location s"
  "PathHistory (io_emit ev data s) = PathHistory s"
  "sockets (io_emit ev data s) = sockets s"
  "rooms (io_emit ev data s) = rooms s"
  by (simp_all add: io_emit_def)

lemma io_to_emit_frame [simp]:
  "Location (io_to_emit room ev data s) = Location s"
  "PathHistory (io_to_emit room ev data s) = PathHistory s"
  "sockets (io_to_emit room ev data s) = sockets s"
  "rooms (io_to_emit room ev data s) = rooms s"
  by (simp_all add: io_to_emit_def)

lemma socket_emit_frame [simp]:
  "Location (socket_emit c ev data s) = Location s"
  "PathHistory (socket_emit c ev data s) = PathHistory s"
  "sockets (socket_emit c ev data s) = sockets s"
  "rooms (socket_emit c ev data s) = rooms s"
  by (simp_all add: socket_emit_def)

lemma io_emit_inbox:
  "inbox (io_emit ev data s) c = inbox s c @ (if c \<in> sockets s then [(Broadcast, ev, data)] else [])"
  by (simp add: io_emit_def)

lemma io_to_emit_inbox:
  "inbox (io_to_emit room ev data s) c =
     inbox s c @ (if c \<in> sockets s \<and> c \<in> rooms s room then [(Room room, ev, data)] else [])"
  by (simp add: io_to_emit_def)

lemma socket_emit_inbox:
  "inbox (socket_emit socket ev data s) c =
     inbox s c @ (if c = socket then [(Direct, ev, data)] else [])"
  by (simp add: socket_emit_def)

subsection \<open>Queries\<close>

lemma slice_last_length: "length (slice_last n xs) \<le> n"
  by (simp add: slice_last_def)

lemma slice_last_append: "slice_last n (slice_last n xs @ ys) = slice_last n (xs @ ys)"
proof -
  have "length xs + length ys - (length xs - n + n) + (length xs - n) =
          length xs + length ys - n"
    by arith
  then show ?thesis by (simp add: slice_last_def)
qed

lemma slice_last_all: "length xs \<le> n \<Longrightarrow> slice_last n xs = xs"
  by (simp add: slice_last_def)

lemma findOne_Some: "findOne q ds = Some d \<Longrightarrow> q d \<and> d \<in> set ds"
  by (induction ds) (auto split: if_splits)

lemma findOne_None: "findOne q ds = None \<longleftrightarrow> (\<forall>d\<in>set ds. \<not> q d)"
  by (induction ds) auto

lemma findOne_append:
  "findOne q (xs @ ys) = (case findOne q xs of None \<Rightarrow> findOne q ys | Some d \<Rightarrow> Some d)"
  by (induction xs) auto

lemma findOneAndUpdate_fst: "fst (findOneAndUpdate q u ds) = map_option u (findOne q ds)"
  by (induction ds) (auto split: prod.splits)

lemma findOneAndUpdate_length: "length (snd (findOneAndUpdate q u ds)) = length ds"
  by (induction ds) (auto split: prod.splits)

lemma findOneAndUpdate_unmatched:
  "findOne q ds = None \<Longrightarrow> snd (findOneAndUpdate q u ds) = ds"
  by (induction ds) (auto split: prod.splits if_splits)

lemma findOneAndUpdate_findOne:
  assumes "\<And>d. q d \<Longrightarrow> q (u d)"
  shows "findOne q (snd (findOneAndUpdate q u ds)) = map_option u (findOne q ds)"
  using assms by (induction ds) (auto split: prod.splits)

lemma findOneAndUpdate_map:
  assumes "\<And>d. f (u d) = f d"
  shows "map f (snd (findOneAndUpdate q u ds)) = map f ds"
  using assms by (induction ds) (auto split: prod.splits)

lemma findOneAndUpdate_others:
  assumes "\<And>d. q d \<Longrightarrow> \<not> P d \<and> \<not> P (u d)"
  shows "filter P (snd (findOneAndUpdate q u ds)) = filter P ds"
  using assms by (induction ds) (auto split: prod.splits)

lemma upsert_fst:
  "fst (findOneAndUpdate_upsert q u ins ds) = (case findOne q ds of None \<Rightarrow> ins | Some d \<Rightarrow> u d)"
proof (cases "findOneAndUpdate q u ds")
  case (Pair r ds')
  then have "r = map_option u (findOne q ds)"
    using findOneAndUpdate_fst [of q u ds] by simp
  with Pair show ?thesis
    by (simp add: findOneAndUpdate_upsert_def split: option.splits)
qed

lemma upsert_snd:
  "snd (findOneAndUpdate_upsert q u ins ds) =
     (case findOne q ds of None \<Rightarrow> ds @ [ins] | Some d \<Rightarrow> snd (findOneAndUpdate q u ds))"
proof (cases "findOneAndUpdate q u ds")
  case (Pair r ds')
  then have "r = map_option u (findOne q ds)"
    using findOneAndUpdate_fst [of q u ds] by simp
  with Pair show ?thesis
    by (simp add: findOneAndUpdate_upsert_def split: option.splits)
qed

lemma upsert_findOne:
  assumes "\<And>d. q d \<Longrightarrow> q (u d)" and "q ins"
  shows "findOne q (snd (findOneAndUpdate_upsert q u ins ds)) =
           Some (fst (findOneAndUpdate_upsert q u ins ds))"
proof (cases "findOne q ds")
  case None
  then show ?thesis
    using assms(2) by (simp add: upsert_fst upsert_snd findOne_append)
next
  case (Some d)
  then show ?thesis
    using findOneAndUpdate_findOne [of q u ds] assms(1) by (simp add: upsert_fst upsert_snd)
qed

lemma deleteMany_survivors: "\<forall>d\<in>set (snd (deleteMany q ds)). \<not> q d"
  by (simp add: deleteMany_def)

lemma deleteMany_count: "fst (deleteMany q ds) + length (snd (deleteMany q ds)) = length ds"
  by (simp add: deleteMany_def sum_length_filter_compl)

lemma deleteMany_deleted: "fst (deleteMany q ds) = length ds - length (snd (deleteMany q ds))"
  using deleteMany_count [of q ds] by linarith

lemma or_zero_eq: "or_zero x = (case x of None \<Rightarrow> 0 | Some v \<Rightarrow> v)"
  by (simp add: or_zero_def split: option.splits)

lemma Location_upsert_fst:
  "fst (Location_upsert now tid la lg sp ac locs) =
     \<lparr>trackId = tid, lat = la, lng = lg, speed = or_zero sp, accuracy = or_zero ac,
       timestamp = now, isActive = True\<rparr>"
proof (cases "findOne (\<lambda>d. trackId d = tid) locs")
  case None
  then show ?thesis by (simp add: Location_upsert_def upsert_fst)
next
  case (Some d)
  then have "trackId d = tid" using findOne_Some [of "\<lambda>d. trackId d = tid" locs d] by simp
  with Some show ?thesis by (simp add: Location_upsert_def upsert_fst)
qed

lemma Location_upsert_findOne:
  "findOne (\<lambda>d. trackId d = tid) (snd (Location_upsert now tid la lg sp ac locs)) =
     Some (fst (Location_upsert now tid la lg sp ac locs))"
  unfolding Location_upsert_def by (rule upsert_findOne) simp_all

lemma PathHistory_push_findOne:
  "findOne (\<lambda>d. ph_trackId d = tid) (PathHistory_push now tid la lg phs) =
     Some (case findOne (\<lambda>d. ph_trackId d = tid) phs of
             None \<Rightarrow> \<lparr>ph_trackId = tid,
                       points = slice_last 1000 [\<lparr>p_lat = la, p_lng = lg, p_timestamp = now\<rparr>],
                       lastUpdated = now\<rparr>
           | Some d \<Rightarrow> d\<lparr>points := slice_last 1000
                                      (points d @ [\<lparr>p_lat = la, p_lng = lg, p_timestamp = now\<rparr>]),
                         lastUpdated := now\<rparr>)"
  unfolding PathHistory_push_def
  by (subst upsert_findOne) (simp_all add: upsert_fst)

subsection \<open>The update handlers on an accepted request\<close>

lemma post_location_update_accepted:
  assumes "d_trackId req = Some tid" and "tid \<noteq> []"
    and "d_lat req = Some la" and "d_lng req = Some lg"
    and "- 90 \<le> la" and "la \<le> 90" and "- 180 \<le> lg" and "lg \<le> 180"
  shows "post_location_update now req s =
    ((200, UpdateBody (fst (Location_upsert now tid la lg (d_speed req) (d_accuracy req) (Location s)))),
     io_emit (''location:'' @ tid)
       (UpdateData tid la lg (or_zero (d_speed req)) (or_zero (d_accuracy req)) now)
       (io_emit ''location:updated''
          (UpdateData tid la lg (or_zero (d_speed req)) (or_zero (d_accuracy req)) now)
          (s\<lparr>Location := snd (Location_upsert now tid la lg (d_speed req) (d_accuracy req) (Location s)),
             PathHistory := PathHistory_push now tid la lg (PathHistory s)\<rparr>)))"
  using assms by (simp add: post_location_update_def Let_def split: prod.splits)

lemma socket_location_update_accepted:
  assumes "d_trackId req = Some tid" and "tid \<noteq> []"
    and "d_lat req = Some la" and "d_lng req = Some lg"
    and "- 90 \<le> la" and "la \<le> 90" and "- 180 \<le> lg" and "lg \<le> 180"
  shows "socket_location_update socket now req s =
     io_emit (''location:'' @ tid)
       (UpdateData tid la lg (or_zero (d_speed req)) (or_zero (d_accuracy req)) now)
       (io_to_emit (''track:'' @ tid) ''location:updated''
         (UpdateData tid la lg (or_zero (d_speed req)) (or_zero (d_accuracy req)) now)
       (io_emit ''location:updated''
          (UpdateData tid la lg (or_zero (d_speed req)) (or_zero (d_accuracy req)) now)
          (s\<lparr>Location := snd (Location_upsert now tid la lg (d_speed req) (d_accuracy req) (Location s)),
             PathHistory := PathHistory_push now tid la lg (PathHistory s)\<rparr>)))"
  using assms by (simp add: socket_location_update_def Let_def split: prod.splits)

lemma update_stores_record:
  assumes "d_trackId req = Some tid" and "tid \<noteq> []"
    and "d_lat req = Some la" and "d_lng req = Some lg"
    and "- 90 \<le> la" and "la \<le> 90" and "- 180 \<le> lg" and "lg \<le> 180"
  shows "findOne (\<lambda>d. trackId d = tid) (Location (snd (post_location_update now req s))) =
           Some \<lparr>trackId = tid, lat = la, lng = lg, speed = or_zero (d_speed req),
                 accuracy = or_zero (d_accuracy req), timestamp = now, isActive = True\<rparr>"
    and "findOne (\<lambda>d. trackId d = tid) (Location (socket_location_update socket now req s)) =
           Some \<lparr>trackId = tid, lat = la, lng = lg, speed = or_zero (d_speed req),
                 accuracy = or_zero (d_accuracy req), timestamp = now, isActive = True\<rparr>"
  using assms
  by (simp_all add: post_location_update_accepted socket_location_update_accepted
        Location_upsert_findOne Location_upsert_fst)

lemma post_location_update_inbox:
  assumes "d_trackId req = Some tid" and "tid \<noteq> []"
    and "d_lat req = Some la" and "d_lng req = Some lg"
    and "- 90 \<le> la" and "la \<le> 90" and "- 180 \<le> lg" and "lg \<le> 180"
  shows "inbox (snd (post_location_update now req s)) c =
     inbox s c @
       (if c \<in> sockets s
        then [(Broadcast, ''location:updated'',
                UpdateData tid la lg (or_zero (d_speed req)) (or_zero (d_accuracy req)) now),
              (Broadcast, ''location:'' @ tid,
                UpdateData tid la lg (or_zero (d_speed req)) (or_zero (d_accuracy req)) now)]
        else [])"
  by (simp add: post_location_update_accepted [OF assms] io_emit_inbox)

lemma socket_location_update_inbox:
  assumes "d_trackId req = Some tid" and "tid \<noteq> []"
    and "d_lat req = Some la" and "d_lng req = Some lg"
    and "- 90 \<le> la" and "la \<le> 90" and "- 180 \<le> lg" and "lg \<le> 180"
  shows "inbox (socket_location_update socket now req s) c =
     inbox s c @
       (if c \<in> sockets s
        then (Broadcast, ''location:updated'',
                UpdateData tid la lg (or_zero (d_speed req)) (or_zero (d_accuracy req)) now) #
             (if c \<in> rooms s (''track:'' @ tid)
              then [(Room (''track:'' @ tid), ''location:updated'',
                      UpdateData tid la lg (or_zero (d_speed req)) (or_zero (d_accuracy req)) now)]
              else []) @
             [(Broadcast, ''location:'' @ tid,
                UpdateData tid la lg (or_zero (d_speed req)) (or_zero (d_accuracy req)) now)]
        else [])"
  by (simp add: socket_location_update_accepted [OF assms] io_emit_inbox io_to_emit_inbox)

lemma socket_location_update_delivered:
  "\<exists>ps. \<forall>s. sockets s = S \<and> rooms s = R \<longrightarrow>
     inbox (socket_location_update sender now req s) c = inbox s c @ ps"
proof -
  have "\<forall>s. sockets s = S \<and> rooms s = R \<longrightarrow>
     inbox (socket_location_update sender now req s) c =
       inbox s c @ delivered (initial_server\<lparr>sockets := S, rooms := R\<rparr>)
          (socket_location_update sender now req (initial_server\<lparr>sockets := S, rooms := R\<rparr>)) c"
    by (auto simp add: delivered_def socket_location_update_def Let_def initial_server_def
          io_emit_inbox io_to_emit_inbox socket_emit_inbox split: option.splits prod.splits)
  then show ?thesis by blast
qed

lemma post_location_update_delivered:
  "\<exists>ps. \<forall>s. sockets s = S \<and> rooms s = R \<longrightarrow>
     inbox (snd (post_location_update now req s)) c = inbox s c @ ps"
proof -
  have "\<forall>s. sockets s = S \<and> rooms s = R \<longrightarrow>
     inbox (snd (post_location_update now req s)) c =
       inbox s c @ delivered (initial_server\<lparr>sockets := S, rooms := R\<rparr>)
          (snd (post_location_update now req (initial_server\<lparr>sockets := S, rooms := R\<rparr>))) c"
    by (auto simp add: delivered_def post_location_update_def Let_def initial_server_def
          io_emit_inbox split: option.splits prod.splits)
  then show ?thesis by blast
qed

lemma delivered_append: "inbox s' c = inbox s c @ ps \<Longrightarrow> delivered s s' c = ps"
  by (simp add: delivered_def)

subsection \<open>The other handlers\<close>

lemma get_location_found:
  "tid \<noteq> [] \<Longrightarrow> findOne (\<lambda>d. trackId d = tid) (Location s) = Some loc \<Longrightarrow>
     get_location now tid s = (200, LocationBody loc (timestamp loc > now - 30000))"
  by (simp add: get_location_def)

lemma get_path_window:
  assumes "tid \<noteq> []" and "\<bar>now - h * 60 * 60 * 1000\<bar> \<le> 8640000000000000"
  shows "get_path now tid (Hours h) s =
           (200, PointsBody (filter (\<lambda>point. p_timestamp point > now - h * 60 * 60 * 1000)
                               (trail_points tid s)))"
  using assms by (simp add: get_path_def trail_points_def Let_def split: option.splits)

lemma post_location_deactivate_found:
  assumes "tid \<noteq> []" and "findOne (\<lambda>d. trackId d = tid) (Location s) = Some loc"
  shows "post_location_deactivate tid s =
           ((200, MessageBody ''Location sharing deactivated''),
            s\<lparr>Location := snd (findOneAndUpdate (\<lambda>d. trackId d = tid)
                                 (\<lambda>d. d\<lparr>isActive := False\<rparr>) (Location s))\<rparr>)"
proof (cases "findOneAndUpdate (\<lambda>d. trackId d = tid) (\<lambda>d. d\<lparr>isActive := False\<rparr>) (Location s)")
  case (Pair r locs)
  then have "r = Some (loc\<lparr>isActive := False\<rparr>)"
    using findOneAndUpdate_fst
      [of "\<lambda>d. trackId d = tid" "\<lambda>d. d\<lparr>isActive := False\<rparr>" "Location s"] assms(2)
    by simp
  with Pair assms(1) show ?thesis
    by (simp add: post_location_deactivate_def)
qed

lemma post_location_deactivate_frame:
  "Location (snd (post_location_deactivate tid s)) =
     (if tid = [] then Location s
      else snd (findOneAndUpdate (\<lambda>d. trackId d = tid) (\<lambda>d. d\<lparr>isActive := False\<rparr>) (Location s)))"
  "PathHistory (snd (post_location_deactivate tid s)) = PathHistory s"
  "sockets (snd (post_location_deactivate tid s)) = sockets s"
  "rooms (snd (post_location_deactivate tid s)) = rooms s"
  "inbox (snd (post_location_deactivate tid s)) = inbox s"
proof -
  let ?r = "findOneAndUpdate (\<lambda>d. trackId d = tid) (\<lambda>d. d\<lparr>isActive := False\<rparr>) (Location s)"
  have "snd ?r = Location s" if "fst ?r = None"
    using that findOneAndUpdate_unmatched [of "\<lambda>d. trackId d = tid" "Location s"]
    by (simp add: findOneAndUpdate_fst)
  then show "Location (snd (post_location_deactivate tid s)) =
     (if tid = [] then Location s else snd ?r)"
    by (cases ?r) (auto simp add: post_location_deactivate_def split: option.splits)
  show "PathHistory (snd (post_location_deactivate tid s)) = PathHistory s"
    "sockets (snd (post_location_deactivate tid s)) = sockets s"
    "rooms (snd (post_location_deactivate tid s)) = rooms s"
    "inbox (snd (post_location_deactivate tid s)) = inbox s"
    by (simp_all add: post_location_deactivate_def split: prod.splits option.splits)
qed

lemma cleanup_job_stores:
  "Location (cleanup_job now s) = snd (deleteMany (\<lambda>d. timestamp d < now - 24 * 60 * 60 * 1000) (Location s))"
  "PathHistory (cleanup_job now s) =
     snd (deleteMany (\<lambda>d. lastUpdated d < now - 24 * 60 * 60 * 1000) (PathHistory s))"
  by (simp_all add: cleanup_job_def Let_def split: prod.splits)

lemma post_cleanup_eq:
  "post_cleanup now s =
     ((200, CleanupBody (fst (deleteMany (\<lambda>d. timestamp d < now - 24 * 60 * 60 * 1000) (Location s)))
                        (fst (deleteMany (\<lambda>d. lastUpdated d < now - 24 * 60 * 60 * 1000) (PathHistory s)))),
      cleanup_job now s)"
  by (simp add: post_cleanup_def cleanup_job_def Let_def split: prod.splits)

lemma track_subscribe_fields:
  "rooms (track_subscribe c tid s) = (rooms s)(''track:'' @ tid := insert c (rooms s (''track:'' @ tid)))"
  "sockets (track_subscribe c tid s) = sockets s"
  "Location (track_subscribe c tid s) = Location s"
  "PathHistory (track_subscribe c tid s) = PathHistory s"
  "inbox (track_subscribe c tid s) c' =
     inbox s c' @ (if c' = c then [(Direct, ''track:subscribed'', Ack tid True)] else [])"
  by (simp_all add: track_subscribe_def socket_join_def socket_emit_def)

subsection \<open>Trails under sequences of updates\<close>

lemma submit_PathHistory:
  assumes "tid \<noteq> []" and "- 90 \<le> la" and "la \<le> 90" and "- 180 \<le> lg" and "lg \<le> 180"
  shows "PathHistory (submit e now \<lparr>d_trackId = Some tid, d_lat = Some la, d_lng = Some lg,
                                     d_speed = sp, d_accuracy = ac\<rparr> s) =
           PathHistory_push now tid la lg (PathHistory s)"
  using assms
  by (cases e) (simp_all add: post_location_update_accepted socket_location_update_accepted)

lemma submit_report_trail:
  assumes "tid \<noteq> []" and "in_range r"
  shows "trail_points tid (submit_report tid r s) =
           slice_last 1000 (trail_points tid s @ [report_point r])"
proof -
  obtain e now la lg sp ac where r: "r = (e, now, la, lg, sp, ac)"
    by (cases r) auto
  with assms show ?thesis
    by (simp add: trail_points_def submit_PathHistory PathHistory_push_findOne
          split: option.splits)
qed

lemma submit_reports_trail:
  assumes "tid \<noteq> []" and "\<forall>r\<in>set rs. in_range r"
  shows "slice_last 1000 (trail_points tid (submit_reports tid rs s)) =
           slice_last 1000 (trail_points tid s @ map report_point rs)"
  using assms(2)
proof (induction rs arbitrary: s)
  case Nil
  then show ?case by simp
next
  case (Cons r rs)
  then have "slice_last 1000 (trail_points tid (submit_reports tid rs (submit_report tid r s))) =
      slice_last 1000 (trail_points tid (submit_report tid r s) @ map report_point rs)"
    by simp
  also have "\<dots> = slice_last 1000 (slice_last 1000 (trail_points tid s @ [report_point r])
                      @ map report_point rs)"
    using Cons.prems assms(1) by (simp add: submit_report_trail)
  also have "\<dots> = slice_last 1000 ((trail_points tid s @ [report_point r]) @ map report_point rs)"
    by (rule slice_last_append)
  finally show ?case by simp
qed

lemma submit_reports_length:
  assumes "tid \<noteq> []" and "\<forall>r\<in>set rs. in_range r"
    and "rs \<noteq> [] \<or> length (trail_points tid s) \<le> 1000"
  shows "length (trail_points tid (submit_reports tid rs s)) \<le> 1000"
  using assms(2,3)
proof (induction rs rule: rev_induct)
  case Nil
  then show ?case by simp
next
  case (snoc r rs)
  have step: "submit_reports tid (rs @ [r]) s = submit_report tid r (submit_reports tid rs s)"
    by (induction rs arbitrary: s) simp_all
  have "in_range r" using snoc.prems by simp
  then show ?case
    unfolding step using assms(1) by (simp add: submit_report_trail slice_last_length)
qed

lemma three_reports_example:
  "trail_points ''X''
     (submit_reports ''X''
        [(ViaRest, 1000, 1, 2, None, None), (ViaSocket ''S'', 2000, 3, 4, Some 5, None),
         (ViaRest, 3000, 5, 6, None, Some 7)] initial_server) =
     [\<lparr>p_lat = 1, p_lng = 2, p_timestamp = 1000\<rparr>, \<lparr>p_lat = 3, p_lng = 4, p_timestamp = 2000\<rparr>,
      \<lparr>p_lat = 5, p_lng = 6, p_timestamp = 3000\<rparr>]"
  by (simp add: trail_points_def post_location_update_def socket_location_update_def
        Location_upsert_def PathHistory_push_def findOneAndUpdate_upsert_def slice_last_def
        io_emit_def io_to_emit_def initial_server_def Let_def)

subsection \<open>The example servers\<close>

lemma subscribed_server_simps:
  "sockets subscribed_server = {''S'', ''C''}"
  "rooms subscribed_server = (\<lambda>room. {})(''track:X'' := {''C''})"
  "inbox subscribed_server ''C'' = [(Direct, ''track:subscribed'', Ack ''X'' True)]"
  "inbox subscribed_server ''S'' = []"
  "Location subscribed_server = []"
  "PathHistory subscribed_server = []"
  by (simp_all add: subscribed_server_def track_subscribe_def socket_emit_def socket_join_def
        connection_def initial_server_def insert_commute)

subsection \<open>The two entry points of an update\<close>

text \<open>
  For every request, accepted or not, \<^verbatim>\<open>POST /api/location/update\<close> and
  \<^verbatim>\<open>socket.on('location:update')\<close> leave the same collections, sockets and rooms; what
  they emit differs (see C1 and C2 below).
\<close>

theorem entry_points_write_same_records:
  "Location (snd (post_location_update now req s)) =
     Location (socket_location_update socket now req s)
   \<and> PathHistory (snd (post_location_update now req s)) =
     PathHistory (socket_location_update socket now req s)
   \<and> sockets (snd (post_location_update now req s)) =
     sockets (socket_location_update socket now req s)
   \<and> rooms (snd (post_location_update now req s)) =
     rooms (socket_location_update socket now req s)"
  by (simp add: post_location_update_def socket_location_update_def Let_def
        split: option.splits prod.splits)

section \<open>The claims\<close>

text \<open>
  C1, as the code has it. A connected client \<open>c\<close> that has joined the topic of track
  \<open>x\<close> receives, for an accepted update of track \<open>tid\<close> sent through the socket
  handler, the global \<open>location:updated\<close> packet, then a second \<open>location:updated\<close> packet
  through the topic when \<open>tid\<close> is \<open>x\<close> (or another track whose topic it joined), then
  the legacy packet \<open>location:tid\<close>. For a track whose topic it has not joined nothing
  arrives through a topic. Sent through the REST route, the update reaches \<open>c\<close> as the
  global packet and the legacy packet only, whatever \<open>c\<close> is subscribed to.
\<close>

theorem C1_deliveries_to_subscriber:
  assumes "d_trackId req = Some tid" and "tid \<noteq> []"
    and "d_lat req = Some la" and "d_lng req = Some lg"
    and "- 90 \<le> la" and "la \<le> 90" and "- 180 \<le> lg" and "lg \<le> 180"
    and "c \<in> sockets s" and "c \<in> rooms s (''track:'' @ x)"
  shows "inbox (socket_location_update sender now req s) c =
           inbox s c @
             (if tid = x \<or> c \<in> rooms s (''track:'' @ tid)
              then [(Broadcast, ''location:updated'',
                      UpdateData tid la lg (or_zero (d_speed req)) (or_zero (d_accuracy req)) now),
                    (Room (''track:'' @ tid), ''location:updated'',
                      UpdateData tid la lg (or_zero (d_speed req)) (or_zero (d_accuracy req)) now),
                    (Broadcast, ''location:'' @ tid,
                      UpdateData tid la lg (or_zero (d_speed req)) (or_zero (d_accuracy req)) now)]
              else [(Broadcast, ''location:updated'',
                      UpdateData tid la lg (or_zero (d_speed req)) (or_zero (d_accuracy req)) now),
                    (Broadcast, ''location:'' @ tid,
                      UpdateData tid la lg (or_zero (d_speed req)) (or_zero (d_accuracy req)) now)])
       \<and> inbox (snd (post_location_update now req s)) c =
           inbox s c @
             [(Broadcast, ''location:updated'',
                UpdateData tid la lg (or_zero (d_speed req)) (or_zero (d_accuracy req)) now),
              (Broadcast, ''location:'' @ tid,
                UpdateData tid la lg (or_zero (d_speed req)) (or_zero (d_accuracy req)) now)]"
  using assms(9,10)
  by (auto simp add: socket_location_update_inbox [OF assms(1-8)]
        post_location_update_inbox [OF assms(1-8)])

theorem C1_witness:
  "inbox (socket_location_update ''S'' 1000 update_X subscribed_server) ''C'' =
     [(Direct, ''track:subscribed'', Ack ''X'' True),
      (Broadcast, ''location:updated'', UpdateData ''X'' 10 20 0 0 1000),
      (Room ''track:X'', ''location:updated'', UpdateData ''X'' 10 20 0 0 1000),
      (Broadcast, ''location:X'', UpdateData ''X'' 10 20 0 0 1000)]
   \<and> inbox (snd (post_location_update 1000 update_X subscribed_server)) ''C'' =
     [(Direct, ''track:subscribed'', Ack ''X'' True),
      (Broadcast, ''location:updated'', UpdateData ''X'' 10 20 0 0 1000),
      (Broadcast, ''location:X'', UpdateData ''X'' 10 20 0 0 1000)]
   \<and> inbox (socket_location_update ''S'' 1000 update_Y subscribed_server) ''C'' =
     [(Direct, ''track:subscribed'', Ack ''X'' True),
      (Broadcast, ''location:updated'', UpdateData ''Y'' 30 40 5 0 1000),
      (Broadcast, ''location:Y'', UpdateData ''Y'' 30 40 5 0 1000)]"
  using C1_deliveries_to_subscriber
    [where req = update_X and tid = "''X''" and la = 10 and lg = 20 and c = "''C''"
       and s = subscribed_server and x = "''X''" and sender = "''S''" and now = 1000]
    C1_deliveries_to_subscriber
    [where req = update_Y and tid = "''Y''" and la = 30 and lg = 40 and c = "''C''"
       and s = subscribed_server and x = "''X''" and sender = "''S''" and now = 1000]
  by (simp add: update_X_def update_Y_def subscribed_server_simps or_zero_def)

theorem C1_two_events_counterexample:
  "length (filter (\<lambda>packet. fst (snd packet) = ''location:updated'')
     (inbox (socket_location_update ''S'' 1000 update_X subscribed_server) ''C'')) = 2"
  by (simp add: socket_location_update_def update_X_def subscribed_server_simps
        Location_upsert_def PathHistory_push_def findOneAndUpdate_upsert_def or_zero_def
        Let_def io_emit_inbox io_to_emit_inbox)

text \<open>
  C2 at the update of track \<open>X\<close>. The two entry points write the same records, but the
  subscriber \<open>C\<close> receives three packets from the socket handler and two from the REST
  route, which has no \<^verbatim>\<open>io.to(`track:${trackId}`).emit\<close>.
\<close>

theorem C2_rest_omits_room_emit:
  "inbox (socket_location_update ''S'' 1000 update_X subscribed_server) ''C'' =
     inbox subscribed_server ''C'' @
     [(Broadcast, ''location:updated'', UpdateData ''X'' 10 20 0 0 1000),
      (Room ''track:X'', ''location:updated'', UpdateData ''X'' 10 20 0 0 1000),
      (Broadcast, ''location:X'', UpdateData ''X'' 10 20 0 0 1000)]
   \<and> inbox (snd (post_location_update 1000 update_X subscribed_server)) ''C'' =
     inbox subscribed_server ''C'' @
     [(Broadcast, ''location:updated'', UpdateData ''X'' 10 20 0 0 1000),
      (Broadcast, ''location:X'', UpdateData ''X'' 10 20 0 0 1000)]
   \<and> Location (snd (post_location_update 1000 update_X subscribed_server)) =
     Location (socket_location_update ''S'' 1000 update_X subscribed_server)
   \<and> PathHistory (snd (post_location_update 1000 update_X subscribed_server)) =
     PathHistory (socket_location_update ''S'' 1000 update_X subscribed_server)"
  by (simp add: socket_location_update_def post_location_update_def update_X_def
        subscribed_server_simps Location_upsert_def PathHistory_push_def
        findOneAndUpdate_upsert_def or_zero_def Let_def io_emit_inbox io_to_emit_inbox)

text \<open>
  C3 at these three updates. Right after the third one, accepted at 26 hours, the trail
  still holds the point written at 0 hours. The trim to 24 hours is the \<open>pre('save')\<close>
  hook alone, which would have dropped that point and which no update runs.
\<close>

theorem C3_append_keeps_point_older_than_24h:
  "PathHistory day_later_server =
     [\<lparr>ph_trackId = ''X'',
       points = [\<lparr>p_lat = 10, p_lng = 20, p_timestamp = 0\<rparr>,
                 \<lparr>p_lat = 10, p_lng = 20, p_timestamp = 46800000\<rparr>,
                 \<lparr>p_lat = 10, p_lng = 20, p_timestamp = 93600000\<rparr>],
       lastUpdated = 93600000\<rparr>]
   \<and> map (pre_save 93600000) (PathHistory day_later_server) =
     [\<lparr>ph_trackId = ''X'',
       points = [\<lparr>p_lat = 10, p_lng = 20, p_timestamp = 46800000\<rparr>,
                 \<lparr>p_lat = 10, p_lng = 20, p_timestamp = 93600000\<rparr>],
       lastUpdated = 93600000\<rparr>]
   \<and> (0::int) < 93600000 - 24 * 60 * 60 * 1000"
  by (simp add: day_later_server_def update_X_def post_location_update_def
        socket_location_update_def cleanup_job_def deleteMany_def pre_save_def
        Location_upsert_def PathHistory_push_def findOneAndUpdate_upsert_def slice_last_def
        io_emit_def io_to_emit_def initial_server_def or_zero_def Let_def)

text \<open>
  C4, as the code has it. When a coordinate of the request is out of range, the update is
  rejected and nothing is written: the REST route answers 400 and leaves the server as it
  was; the socket handler sends one \<open>error\<close> packet to the sender alone and leaves the
  collections, the rooms and every other inbox as they were. The rejection reads
  \<open>Invalid coordinates\<close> when trackId is non-empty and both coordinates are present; the
  check for missing fields comes first, so with an empty or absent trackId or an absent
  coordinate it reads \<open>Missing required fields\<close>.
\<close>

theorem C4_out_of_range_rejected_without_writes:
  assumes "(\<exists>la. d_lat req = Some la \<and> (la < - 90 \<or> 90 < la))
         \<or> (\<exists>lg. d_lng req = Some lg \<and> (lg < - 180 \<or> 180 < lg))"
  shows "post_location_update now req s =
           ((400, ErrorBody
              (if d_trackId req = None \<or> d_trackId req = Some [] \<or> d_lat req = None \<or> d_lng req = None
               then ''Missing required fields: trackId, lat, lng'' else ''Invalid coordinates'')),
            s)
       \<and> socket_location_update socket now req s =
           socket_emit socket ''error''
             (ErrorMessage
               (if d_trackId req = None \<or> d_trackId req = Some [] \<or> d_lat req = None \<or> d_lng req = None
                then ''Missing required fields'' else ''Invalid coordinates''))
             s
       \<and> Location (socket_location_update socket now req s) = Location s
       \<and> PathHistory (socket_location_update socket now req s) = PathHistory s
       \<and> rooms (socket_location_update socket now req s) = rooms s
       \<and> sockets (socket_location_update socket now req s) = sockets s
       \<and> (\<forall>c. c \<noteq> socket \<longrightarrow> inbox (socket_location_update socket now req s) c = inbox s c)"
proof -
  have rest: "post_location_update now req s =
           ((400, ErrorBody
              (if d_trackId req = None \<or> d_trackId req = Some [] \<or> d_lat req = None \<or> d_lng req = None
               then ''Missing required fields: trackId, lat, lng'' else ''Invalid coordinates'')),
            s)"
    using assms by (auto simp add: post_location_update_def split: option.splits)
  have sock: "socket_location_update socket now req s =
           socket_emit socket ''error''
             (ErrorMessage
               (if d_trackId req = None \<or> d_trackId req = Some [] \<or> d_lat req = None \<or> d_lng req = None
                then ''Missing required fields'' else ''Invalid coordinates''))
             s"
    using assms by (auto simp add: socket_location_update_def split: option.splits)
  show ?thesis
    unfolding sock using rest by (simp add: socket_emit_inbox)
qed

theorem C4_witness:
  "post_location_update 1000
     \<lparr>d_trackId = Some ''TRK-ABC'', d_lat = Some 95, d_lng = Some 0,
       d_speed = None, d_accuracy = None\<rparr> subscribed_server =
     ((400, ErrorBody ''Invalid coordinates''), subscribed_server)
   \<and> inbox (socket_location_update ''S'' 1000
     \<lparr>d_trackId = Some ''TRK-ABC'', d_lat = Some 95, d_lng = Some 0,
       d_speed = None, d_accuracy = None\<rparr> subscribed_server) ''S'' =
     [(Direct, ''error'', ErrorMessage ''Invalid coordinates'')]
   \<and> inbox (socket_location_update ''S'' 1000
     \<lparr>d_trackId = Some ''TRK-ABC'', d_lat = Some 95, d_lng = Some 0,
       d_speed = None, d_accuracy = None\<rparr> subscribed_server) ''C'' =
     inbox subscribed_server ''C''"
  using C4_out_of_range_rejected_without_writes
    [where req = "\<lparr>d_trackId = Some ''TRK-ABC'', d_lat = Some 95, d_lng = Some 0,
                    d_speed = None, d_accuracy = None\<rparr>"
       and now = 1000 and s = subscribed_server and socket = "''S''"]
  by (simp add: socket_emit_inbox subscribed_server_simps)

theorem C4_missing_trackId_counterexample:
  "post_location_update 1000
     \<lparr>d_trackId = Some [], d_lat = Some 95, d_lng = Some 0,
       d_speed = None, d_accuracy = None\<rparr> initial_server =
     ((400, ErrorBody ''Missing required fields: trackId, lat, lng''), initial_server)
   \<and> inbox (socket_location_update ''S'' 1000
     \<lparr>d_trackId = Some [], d_lat = Some 95, d_lng = Some 0,
       d_speed = None, d_accuracy = None\<rparr> initial_server) ''S'' =
     [(Direct, ''error'', ErrorMessage ''Missing required fields'')]"
  by (simp add: post_location_update_def socket_location_update_def socket_emit_inbox
        initial_server_def)

text \<open>
  C5. After any sequence of accepted updates of one track, through either entry point,
  the stored trail of the track has at most 1000 points (from any server when the
  sequence is not empty, and from a server whose trail has at most 1000 points
  otherwise): it is the last 1000 of the points it held before followed by the
  submitted points, in order of arrival. After 1500 updates it is the last 1000 submitted points, and
  \<^verbatim>\<open>GET /api/path/:trackId\<close> returns exactly these when its window starts, at a valid
  date, before all of them.
\<close>

theorem C5_trail_keeps_last_1000:
  assumes "tid \<noteq> []" and "\<forall>r\<in>set rs. in_range r"
    and "rs \<noteq> [] \<or> length (trail_points tid s) \<le> 1000"
  shows "length (trail_points tid (submit_reports tid rs s)) \<le> 1000
       \<and> trail_points tid (submit_reports tid rs s) =
           slice_last 1000 (trail_points tid s @ map report_point rs)
       \<and> (length rs = 1500 \<longrightarrow>
            trail_points tid (submit_reports tid rs s) = drop 500 (map report_point rs)
            \<and> (\<forall>now h. \<bar>now - h * 60 * 60 * 1000\<bar> \<le> 8640000000000000
                   \<and> (\<forall>r\<in>set rs. now - h * 60 * 60 * 1000 < p_timestamp (report_point r))
                 \<longrightarrow> get_path now tid (Hours h) (submit_reports tid rs s) =
                       (200, PointsBody (drop 500 (map report_point rs)))))"
proof -
  let ?s' = "submit_reports tid rs s"
  have len: "length (trail_points tid ?s') \<le> 1000"
    by (rule submit_reports_length [OF assms])
  have eq: "trail_points tid ?s' = slice_last 1000 (trail_points tid s @ map report_point rs)"
    using submit_reports_trail [OF assms(1,2), of s] slice_last_all [OF len] by simp
  have last: "trail_points tid ?s' = drop 500 (map report_point rs)" if "length rs = 1500"
    using that unfolding eq by (simp add: slice_last_def)
  have path: "get_path now tid (Hours h) ?s' = (200, PointsBody (drop 500 (map report_point rs)))"
    if n: "length rs = 1500"
      and valid: "\<bar>now - h * 60 * 60 * 1000\<bar> \<le> 8640000000000000"
      and window: "\<forall>r\<in>set rs. now - h * 60 * 60 * 1000 < p_timestamp (report_point r)"
    for now h
  proof -
    have "set (drop 500 (map report_point rs)) \<subseteq> report_point ` set rs"
      using set_drop_subset [of 500 "map report_point rs"] by simp
    then have "\<forall>p\<in>set (drop 500 (map report_point rs)). now - h * 60 * 60 * 1000 < p_timestamp p"
      using window by blast
    then have "filter (\<lambda>point. p_timestamp point > now - h * 60 * 60 * 1000)
                 (drop 500 (map report_point rs)) = drop 500 (map report_point rs)"
      by (simp only: filter_True)
    then show ?thesis
      using get_path_window [OF assms(1) valid, of ?s'] last [OF n] by simp
  qed
  from len eq last path show ?thesis by blast
qed

theorem C5_witness:
  "length (trail_points ''X''
      (submit_reports ''X''
         (map (\<lambda>i. (if even i then ViaRest else ViaSocket ''S'', int i, 10, 20, None, None)) [0..<1500])
         initial_server)) \<le> 1000
   \<and> trail_points ''X''
      (submit_reports ''X''
         (map (\<lambda>i. (if even i then ViaRest else ViaSocket ''S'', int i, 10, 20, None, None)) [0..<1500])
         initial_server) =
     drop 500 (map report_point
        (map (\<lambda>i. (if even i then ViaRest else ViaSocket ''S'', int i, 10, 20, None, None)) [0..<1500]))
   \<and> get_path 2000 ''X'' (Hours 1)
      (submit_reports ''X''
         (map (\<lambda>i. (if even i then ViaRest else ViaSocket ''S'', int i, 10, 20, None, None)) [0..<1500])
         initial_server) =
     (200, PointsBody (drop 500 (map report_point
        (map (\<lambda>i. (if even i then ViaRest else ViaSocket ''S'', int i, 10, 20, None, None)) [0..<1500]))))"
proof -
  let ?rs = "map (\<lambda>i. (if even i then ViaRest else ViaSocket ''S'', int i, 10, 20, None, None))
               [0..<1500]"
  have ok: "\<forall>r\<in>set ?rs. in_range r" by simp
  have ne: "?rs \<noteq> [] \<or> length (trail_points ''X'' initial_server) \<le> 1000" by simp
  have n: "length ?rs = 1500" by simp
  have tid: "''X'' \<noteq> []" by simp
  have valid: "\<bar>(2000::int) - 1 * 60 * 60 * 1000\<bar> \<le> 8640000000000000" by simp
  have window: "\<forall>r\<in>set ?rs. (2000::int) - 1 * 60 * 60 * 1000 < p_timestamp (report_point r)"
    by simp
  show ?thesis
    using C5_trail_keeps_last_1000 [OF tid ok ne] n valid window
    by blast
qed

text \<open>
  C6. After an accepted update, through either entry point, the position lookup
  \<^verbatim>\<open>GET /api/location/:trackId\<close> answers 200 with the record of the track: its lat and lng
  are the submitted values, isActive is true, and speed and accuracy are the submitted
  values, or 0 where the field was absent.
\<close>

theorem C6_getPosition_reflects_update:
  assumes "d_trackId req = Some tid" and "tid \<noteq> []"
    and "d_lat req = Some la" and "d_lng req = Some lg"
    and "- 90 \<le> la" and "la \<le> 90" and "- 180 \<le> lg" and "lg \<le> 180"
  shows "get_location now' tid (snd (post_location_update now req s)) =
           (200, LocationBody
              \<lparr>trackId = tid, lat = la, lng = lg,
                speed = (case d_speed req of None \<Rightarrow> 0 | Some v \<Rightarrow> v),
                accuracy = (case d_accuracy req of None \<Rightarrow> 0 | Some v \<Rightarrow> v),
                timestamp = now, isActive = True\<rparr>
              (now > now' - 30000))
       \<and> get_location now' tid (socket_location_update socket now req s) =
           (200, LocationBody
              \<lparr>trackId = tid, lat = la, lng = lg,
                speed = (case d_speed req of None \<Rightarrow> 0 | Some v \<Rightarrow> v),
                accuracy = (case d_accuracy req of None \<Rightarrow> 0 | Some v \<Rightarrow> v),
                timestamp = now, isActive = True\<rparr>
              (now > now' - 30000))"
proof -
  note found = update_stores_record [OF assms]
  have rest: "get_location now' tid (snd (post_location_update now req s)) =
      (200, LocationBody
         \<lparr>trackId = tid, lat = la, lng = lg, speed = or_zero (d_speed req),
           accuracy = or_zero (d_accuracy req), timestamp = now, isActive = True\<rparr>
         (now > now' - 30000))"
    using get_location_found [OF assms(2) found(1), of now' now s] by simp
  have sock: "get_location now' tid (socket_location_update socket now req s) =
      (200, LocationBody
         \<lparr>trackId = tid, lat = la, lng = lg, speed = or_zero (d_speed req),
           accuracy = or_zero (d_accuracy req), timestamp = now, isActive = True\<rparr>
         (now > now' - 30000))"
    using get_location_found [OF assms(2) found(2), of now' socket now s] by simp
  from rest sock show ?thesis by (simp add: or_zero_eq)
qed

theorem C6_witness:
  "get_location 2000 ''TRK-ABC''
     (snd (post_location_update 1000
        \<lparr>d_trackId = Some ''TRK-ABC'', d_lat = Some (377 / 10), d_lng = Some (- 1224 / 10),
          d_speed = None, d_accuracy = None\<rparr> initial_server)) =
     (200, LocationBody
        \<lparr>trackId = ''TRK-ABC'', lat = 377 / 10, lng = - 1224 / 10, speed = 0, accuracy = 0,
          timestamp = 1000, isActive = True\<rparr> True)
   \<and> get_location 2000 ''TRK-ABC''
     (socket_location_update ''c1'' 1000
        \<lparr>d_trackId = Some ''TRK-ABC'', d_lat = Some (377 / 10), d_lng = Some (- 1224 / 10),
          d_speed = None, d_accuracy = None\<rparr> initial_server) =
     (200, LocationBody
        \<lparr>trackId = ''TRK-ABC'', lat = 377 / 10, lng = - 1224 / 10, speed = 0, accuracy = 0,
          timestamp = 1000, isActive = True\<rparr> True)"
  using C6_getPosition_reflects_update
    [where req = "\<lparr>d_trackId = Some ''TRK-ABC'', d_lat = Some (377 / 10),
                    d_lng = Some (- 1224 / 10), d_speed = None, d_accuracy = None\<rparr>"
       and tid = "''TRK-ABC''" and la = "377 / 10" and lg = "- 1224 / 10"
       and now = 1000 and now' = 2000 and s = initial_server and socket = "''c1''"]
  by simp

text \<open>
  C7. The hourly job and \<^verbatim>\<open>POST /api/cleanup\<close> leave the same server. Afterwards no
  position record has a timestamp before now - 24h and no trail record has lastUpdated
  before now - 24h; exactly the records that are not older survive, in their order. The
  manual trigger answers 200 with the two counts, each the number of records deleted
  from its collection.
\<close>

theorem C7_cleanup_age_invariant:
  "snd (post_cleanup now s) = cleanup_job now s
   \<and> (\<forall>d\<in>set (Location (cleanup_job now s)). \<not> timestamp d < now - 24 * 60 * 60 * 1000)
   \<and> (\<forall>d\<in>set (PathHistory (cleanup_job now s)). \<not> lastUpdated d < now - 24 * 60 * 60 * 1000)
   \<and> Location (cleanup_job now s) =
       filter (\<lambda>d. now - 24 * 60 * 60 * 1000 \<le> timestamp d) (Location s)
   \<and> PathHistory (cleanup_job now s) =
       filter (\<lambda>d. now - 24 * 60 * 60 * 1000 \<le> lastUpdated d) (PathHistory s)
   \<and> fst (post_cleanup now s) =
       (200, CleanupBody (length (Location s) - length (Location (cleanup_job now s)))
                         (length (PathHistory s) - length (PathHistory (cleanup_job now s))))"
proof -
  have same: "snd (post_cleanup now s) = cleanup_job now s"
    by (simp add: post_cleanup_eq)
  have locs: "\<forall>d\<in>set (Location (cleanup_job now s)). \<not> timestamp d < now - 24 * 60 * 60 * 1000"
    unfolding cleanup_job_stores by (rule deleteMany_survivors)
  have phs: "\<forall>d\<in>set (PathHistory (cleanup_job now s)). \<not> lastUpdated d < now - 24 * 60 * 60 * 1000"
    unfolding cleanup_job_stores by (rule deleteMany_survivors)
  have kept: "Location (cleanup_job now s) =
                filter (\<lambda>d. now - 24 * 60 * 60 * 1000 \<le> timestamp d) (Location s)"
    "PathHistory (cleanup_job now s) =
       filter (\<lambda>d. now - 24 * 60 * 60 * 1000 \<le> lastUpdated d) (PathHistory s)"
    by (simp_all add: cleanup_job_stores deleteMany_def not_less)
  have counts: "fst (post_cleanup now s) =
       (200, CleanupBody (length (Location s) - length (Location (cleanup_job now s)))
                         (length (PathHistory s) - length (PathHistory (cleanup_job now s))))"
    unfolding post_cleanup_eq cleanup_job_stores
    using deleteMany_deleted [of "\<lambda>d. timestamp d < now - 24 * 60 * 60 * 1000" "Location s"]
      deleteMany_deleted [of "\<lambda>d. lastUpdated d < now - 24 * 60 * 60 * 1000" "PathHistory s"]
    by simp
  from same locs phs kept counts show ?thesis by blast
qed

theorem C7_witness:
  "snd (post_cleanup 100000000
      (initial_server
         \<lparr>Location :=
            [\<lparr>trackId = ''TRK-OLD'', lat = 1, lng = 2, speed = 0, accuracy = 0,
               timestamp = 13599999, isActive = True\<rparr>,
             \<lparr>trackId = ''TRK-NEW'', lat = 3, lng = 4, speed = 0, accuracy = 0,
               timestamp = 13600000, isActive = False\<rparr>],
          PathHistory :=
            [\<lparr>ph_trackId = ''TRK-OLD'',
               points = [\<lparr>p_lat = 1, p_lng = 2, p_timestamp = 13599999\<rparr>],
               lastUpdated = 13599999\<rparr>,
             \<lparr>ph_trackId = ''TRK-NEW'',
               points = [\<lparr>p_lat = 3, p_lng = 4, p_timestamp = 13600000\<rparr>],
               lastUpdated = 13600000\<rparr>]\<rparr>)) =
     initial_server
       \<lparr>Location :=
          [\<lparr>trackId = ''TRK-NEW'', lat = 3, lng = 4, speed = 0, accuracy = 0,
             timestamp = 13600000, isActive = False\<rparr>],
        PathHistory :=
          [\<lparr>ph_trackId = ''TRK-NEW'',
             points = [\<lparr>p_lat = 3, p_lng = 4, p_timestamp = 13600000\<rparr>],
             lastUpdated = 13600000\<rparr>]\<rparr>
   \<and> fst (post_cleanup 100000000
      (initial_server
         \<lparr>Location :=
            [\<lparr>trackId = ''TRK-OLD'', lat = 1, lng = 2, speed = 0, accuracy = 0,
               timestamp = 13599999, isActive = True\<rparr>,
             \<lparr>trackId = ''TRK-NEW'', lat = 3, lng = 4, speed = 0, accuracy = 0,
               timestamp = 13600000, isActive = False\<rparr>],
          PathHistory :=
            [\<lparr>ph_trackId = ''TRK-OLD'',
               points = [\<lparr>p_lat = 1, p_lng = 2, p_timestamp = 13599999\<rparr>],
               lastUpdated = 13599999\<rparr>,
             \<lparr>ph_trackId = ''TRK-NEW'',
               points = [\<lparr>p_lat = 3, p_lng = 4, p_timestamp = 13600000\<rparr>],
               lastUpdated = 13600000\<rparr>]\<rparr>)) = (200, CleanupBody 1 1)"
  using C7_cleanup_age_invariant
    [of 100000000
      "initial_server
         \<lparr>Location :=
            [\<lparr>trackId = ''TRK-OLD'', lat = 1, lng = 2, speed = 0, accuracy = 0,
               timestamp = 13599999, isActive = True\<rparr>,
             \<lparr>trackId = ''TRK-NEW'', lat = 3, lng = 4, speed = 0, accuracy = 0,
               timestamp = 13600000, isActive = False\<rparr>],
          PathHistory :=
            [\<lparr>ph_trackId = ''TRK-OLD'',
               points = [\<lparr>p_lat = 1, p_lng = 2, p_timestamp = 13599999\<rparr>],
               lastUpdated = 13599999\<rparr>,
             \<lparr>ph_trackId = ''TRK-NEW'',
               points = [\<lparr>p_lat = 3, p_lng = 4, p_timestamp = 13600000\<rparr>],
               lastUpdated = 13600000\<rparr>]\<rparr>"]
  by (simp add: cleanup_job_def deleteMany_def initial_server_def)

text \<open>
  C8. A second \<open>track:subscribe\<close> of the same socket to the same track leaves the rooms
  as the first one left them, and each call sends the caller one \<open>track:subscribed\<close>
  packet naming the track. An update published afterwards, through either entry point,
  delivers to every client the same packets after two subscriptions as after one.
\<close>

theorem C8_subscribe_idempotent:
  "rooms (track_subscribe c tid (track_subscribe c tid s)) = rooms (track_subscribe c tid s)
   \<and> sockets (track_subscribe c tid (track_subscribe c tid s)) = sockets (track_subscribe c tid s)
   \<and> inbox (track_subscribe c tid s) c =
       inbox s c @ [(Direct, ''track:subscribed'', Ack tid True)]
   \<and> inbox (track_subscribe c tid (track_subscribe c tid s)) c =
       inbox (track_subscribe c tid s) c @ [(Direct, ''track:subscribed'', Ack tid True)]
   \<and> delivered (track_subscribe c tid (track_subscribe c tid s))
       (socket_location_update sender now req (track_subscribe c tid (track_subscribe c tid s))) c' =
     delivered (track_subscribe c tid s)
       (socket_location_update sender now req (track_subscribe c tid s)) c'
   \<and> delivered (track_subscribe c tid (track_subscribe c tid s))
       (snd (post_location_update now req (track_subscribe c tid (track_subscribe c tid s)))) c' =
     delivered (track_subscribe c tid s)
       (snd (post_location_update now req (track_subscribe c tid s))) c'"
proof -
  let ?s1 = "track_subscribe c tid s" and ?s2 = "track_subscribe c tid (track_subscribe c tid s)"
  have r: "rooms ?s2 = rooms ?s1" and k: "sockets ?s2 = sockets ?s1"
    by (simp_all add: track_subscribe_fields)
  obtain ps where ps: "\<forall>s. sockets s = sockets ?s1 \<and> rooms s = rooms ?s1 \<longrightarrow>
     inbox (socket_location_update sender now req s) c' = inbox s c' @ ps"
    using socket_location_update_delivered by blast
  obtain qs where qs: "\<forall>s. sockets s = sockets ?s1 \<and> rooms s = rooms ?s1 \<longrightarrow>
     inbox (snd (post_location_update now req s)) c' = inbox s c' @ qs"
    using post_location_update_delivered by blast
  have "delivered ?s2 (socket_location_update sender now req ?s2) c' = ps"
    using ps r k by (intro delivered_append) blast
  moreover have "delivered ?s1 (socket_location_update sender now req ?s1) c' = ps"
    using ps by (intro delivered_append) blast
  moreover have "delivered ?s2 (snd (post_location_update now req ?s2)) c' = qs"
    using qs r k by (intro delivered_append) blast
  moreover have "delivered ?s1 (snd (post_location_update now req ?s1)) c' = qs"
    using qs by (intro delivered_append) blast
  ultimately show ?thesis
    using r k by (simp add: track_subscribe_fields)
qed

text \<open>
  C9, as the code has it. The handlers never look at the sign of speed or accuracy: after
  an accepted update the stored record holds the submitted speed and accuracy, or 0 where
  the field was absent, so each is nonnegative exactly when the submitted value is absent
  or nonnegative.
\<close>

theorem C9_speed_accuracy_stored_as_submitted:
  assumes "d_trackId req = Some tid" and "tid \<noteq> []"
    and "d_lat req = Some la" and "d_lng req = Some lg"
    and "- 90 \<le> la" and "la \<le> 90" and "- 180 \<le> lg" and "lg \<le> 180"
    and "s' = snd (post_location_update now req s) \<or> s' = socket_location_update socket now req s"
  shows "\<exists>loc. findOne (\<lambda>d. trackId d = tid) (Location s') = Some loc
           \<and> speed loc = (case d_speed req of None \<Rightarrow> 0 | Some v \<Rightarrow> v)
           \<and> accuracy loc = (case d_accuracy req of None \<Rightarrow> 0 | Some v \<Rightarrow> v)
           \<and> (0 \<le> speed loc \<longleftrightarrow> (case d_speed req of None \<Rightarrow> True | Some v \<Rightarrow> 0 \<le> v))
           \<and> (0 \<le> accuracy loc \<longleftrightarrow> (case d_accuracy req of None \<Rightarrow> True | Some v \<Rightarrow> 0 \<le> v))"
proof -
  have "findOne (\<lambda>d. trackId d = tid) (Location s') =
          Some \<lparr>trackId = tid, lat = la, lng = lg, speed = or_zero (d_speed req),
                accuracy = or_zero (d_accuracy req), timestamp = now, isActive = True\<rparr>"
    using update_stores_record [OF assms(1-8)] assms(9) by auto
  then show ?thesis
    by (simp add: or_zero_eq split: option.splits)
qed

theorem C9_witness:
  "\<exists>loc. findOne (\<lambda>d. trackId d = ''TRK-ABC'')
       (Location (snd (post_location_update 1000
          \<lparr>d_trackId = Some ''TRK-ABC'', d_lat = Some 0, d_lng = Some 0,
            d_speed = Some 12, d_accuracy = None\<rparr> initial_server))) = Some loc
     \<and> speed loc = 12 \<and> accuracy loc = 0 \<and> 0 \<le> speed loc \<and> 0 \<le> accuracy loc"
  using C9_speed_accuracy_stored_as_submitted
    [where req = "\<lparr>d_trackId = Some ''TRK-ABC'', d_lat = Some 0, d_lng = Some 0,
                    d_speed = Some 12, d_accuracy = None\<rparr>"
       and tid = "''TRK-ABC''" and la = 0 and lg = 0 and now = 1000 and s = initial_server
       and s' = "snd (post_location_update 1000
          \<lparr>d_trackId = Some ''TRK-ABC'', d_lat = Some 0, d_lng = Some 0,
            d_speed = Some 12, d_accuracy = None\<rparr> initial_server)"]
  by simp

theorem C9_negative_speed_counterexample:
  "Location (snd (post_location_update 1000
      \<lparr>d_trackId = Some ''TRK-ABC'', d_lat = Some 0, d_lng = Some 0,
        d_speed = Some (- 5), d_accuracy = Some (- 1)\<rparr> initial_server)) =
     [\<lparr>trackId = ''TRK-ABC'', lat = 0, lng = 0, speed = - 5, accuracy = - 1,
       timestamp = 1000, isActive = True\<rparr>]
   \<and> Location (socket_location_update ''c1'' 1000
      \<lparr>d_trackId = Some ''TRK-ABC'', d_lat = Some 0, d_lng = Some 0,
        d_speed = Some (- 5), d_accuracy = Some (- 1)\<rparr> initial_server) =
     [\<lparr>trackId = ''TRK-ABC'', lat = 0, lng = 0, speed = - 5, accuracy = - 1,
       timestamp = 1000, isActive = True\<rparr>]"
  by (simp add: post_location_update_def socket_location_update_def Location_upsert_def
        findOneAndUpdate_upsert_def initial_server_def or_zero_def Let_def)

text \<open>
  C10. \<^verbatim>\<open>POST /api/location/deactivate/:trackId\<close> leaves the trackId, lat, lng, speed,
  accuracy and timestamp of every position record as they were, does not touch the
  records of other tracks, and leaves the trails, the sockets, the rooms and every inbox
  as they were. When the track has a position record (the route parameter is never
  empty), it answers 200 and afterwards the record of the track is the old one with
  isActive false.
\<close>

theorem C10_deactivate_changes_only_isActive:
  "map (\<lambda>d. (trackId d, lat d, lng d, speed d, accuracy d, timestamp d))
       (Location (snd (post_location_deactivate tid s))) =
     map (\<lambda>d. (trackId d, lat d, lng d, speed d, accuracy d, timestamp d)) (Location s)
   \<and> filter (\<lambda>d. trackId d \<noteq> tid) (Location (snd (post_location_deactivate tid s))) =
     filter (\<lambda>d. trackId d \<noteq> tid) (Location s)
   \<and> PathHistory (snd (post_location_deactivate tid s)) = PathHistory s
   \<and> sockets (snd (post_location_deactivate tid s)) = sockets s
   \<and> rooms (snd (post_location_deactivate tid s)) = rooms s
   \<and> inbox (snd (post_location_deactivate tid s)) = inbox s
   \<and> (tid \<noteq> [] \<and> findOne (\<lambda>d. trackId d = tid) (Location s) = Some loc \<longrightarrow>
        fst (post_location_deactivate tid s) = (200, MessageBody ''Location sharing deactivated'')
        \<and> findOne (\<lambda>d. trackId d = tid) (Location (snd (post_location_deactivate tid s))) =
            Some (loc\<lparr>isActive := False\<rparr>))"
proof -
  let ?q = "\<lambda>d. trackId d = tid" and ?u = "\<lambda>d. d\<lparr>isActive := False\<rparr>"
  have fields: "map (\<lambda>d. (trackId d, lat d, lng d, speed d, accuracy d, timestamp d))
                  (snd (findOneAndUpdate ?q ?u (Location s))) =
                map (\<lambda>d. (trackId d, lat d, lng d, speed d, accuracy d, timestamp d)) (Location s)"
    by (rule findOneAndUpdate_map) simp
  have others: "filter (\<lambda>d. trackId d \<noteq> tid) (snd (findOneAndUpdate ?q ?u (Location s))) =
                filter (\<lambda>d. trackId d \<noteq> tid) (Location s)"
    by (rule findOneAndUpdate_others) simp
  have found: "fst (post_location_deactivate tid s) = (200, MessageBody ''Location sharing deactivated'')
        \<and> findOne ?q (Location (snd (post_location_deactivate tid s))) = Some (loc\<lparr>isActive := False\<rparr>)"
    if "tid \<noteq> []" and "findOne ?q (Location s) = Some loc"
    using that findOneAndUpdate_findOne [of ?q ?u "Location s"]
    by (simp add: post_location_deactivate_found)
  show ?thesis
    using fields others found by (simp add: post_location_deactivate_frame)
qed

theorem C10_witness:
  "fst (post_location_deactivate ''TRK-ABC''
      (initial_server\<lparr>Location :=
         [\<lparr>trackId = ''TRK-XYZ'', lat = 1, lng = 2, speed = 3, accuracy = 4,
            timestamp = 500, isActive = True\<rparr>,
          \<lparr>trackId = ''TRK-ABC'', lat = 377 / 10, lng = - 1224 / 10, speed = 5, accuracy = 8,
            timestamp = 1000, isActive = True\<rparr>]\<rparr>)) =
     (200, MessageBody ''Location sharing deactivated'')
   \<and> findOne (\<lambda>d. trackId d = ''TRK-ABC'')
     (Location (snd (post_location_deactivate ''TRK-ABC''
      (initial_server\<lparr>Location :=
         [\<lparr>trackId = ''TRK-XYZ'', lat = 1, lng = 2, speed = 3, accuracy = 4,
            timestamp = 500, isActive = True\<rparr>,
          \<lparr>trackId = ''TRK-ABC'', lat = 377 / 10, lng = - 1224 / 10, speed = 5, accuracy = 8,
            timestamp = 1000, isActive = True\<rparr>]\<rparr>)))) =
     Some \<lparr>trackId = ''TRK-ABC'', lat = 377 / 10, lng = - 1224 / 10, speed = 5, accuracy = 8,
            timestamp = 1000, isActive = False\<rparr>
   \<and> Location (snd (post_location_deactivate ''TRK-ABC''
      (initial_server\<lparr>Location :=
         [\<lparr>trackId = ''TRK-XYZ'', lat = 1, lng = 2, speed = 3, accuracy = 4,
            timestamp = 500, isActive = True\<rparr>,
          \<lparr>trackId = ''TRK-ABC'', lat = 377 / 10, lng = - 1224 / 10, speed = 5, accuracy = 8,
            timestamp = 1000, isActive = True\<rparr>]\<rparr>))) =
     [\<lparr>trackId = ''TRK-XYZ'', lat = 1, lng = 2, speed = 3, accuracy = 4,
        timestamp = 500, isActive = True\<rparr>,
      \<lparr>trackId = ''TRK-ABC'', lat = 377 / 10, lng = - 1224 / 10, speed = 5, accuracy = 8,
        timestamp = 1000, isActive = False\<rparr>]"
proof -
  let ?s = "initial_server\<lparr>Location :=
         [\<lparr>trackId = ''TRK-XYZ'', lat = 1, lng = 2, speed = 3, accuracy = 4,
            timestamp = 500, isActive = True\<rparr>,
          \<lparr>trackId = ''TRK-ABC'', lat = 377 / 10, lng = - 1224 / 10, speed = 5, accuracy = 8,
            timestamp = 1000, isActive = True\<rparr>]\<rparr>"
  have tid: "''TRK-ABC'' \<noteq> []" by simp
  have found: "findOne (\<lambda>d. trackId d = ''TRK-ABC'') (Location ?s) =
      Some \<lparr>trackId = ''TRK-ABC'', lat = 377 / 10, lng = - 1224 / 10, speed = 5, accuracy = 8,
             timestamp = 1000, isActive = True\<rparr>"
    by simp
  have "fst (post_location_deactivate ''TRK-ABC'' ?s) =
          (200, MessageBody ''Location sharing deactivated'')
      \<and> findOne (\<lambda>d. trackId d = ''TRK-ABC'')
            (Location (snd (post_location_deactivate ''TRK-ABC'' ?s))) =
          Some (\<lparr>trackId = ''TRK-ABC'', lat = 377 / 10, lng = - 1224 / 10, speed = 5,
                 accuracy = 8, timestamp = 1000, isActive = True\<rparr>\<lparr>isActive := False\<rparr>)"
    using C10_deactivate_changes_only_isActive
      [of "''TRK-ABC''" ?s
        "\<lparr>trackId = ''TRK-ABC'', lat = 377 / 10, lng = - 1224 / 10, speed = 5,
           accuracy = 8, timestamp = 1000, isActive = True\<rparr>"] tid found
    by blast
  moreover have "Location (snd (post_location_deactivate ''TRK-ABC'' ?s)) =
     [\<lparr>trackId = ''TRK-XYZ'', lat = 1, lng = 2, speed = 3, accuracy = 4,
        timestamp = 500, isActive = True\<rparr>,
      \<lparr>trackId = ''TRK-ABC'', lat = 377 / 10, lng = - 1224 / 10, speed = 5, accuracy = 8,
        timestamp = 1000, isActive = False\<rparr>]"
    by (simp add: post_location_deactivate_def)
  ultimately show ?thesis by simp
qed

end
